theory Spec2Isabelle
  imports Complex_Main "HOL-Library.Word"
begin

section \<open>Data model\<close>

text \<open>
  The backend handlers of \<^verbatim>\<open>backend/src/controllers.ts\<close> sequence awaited calls
  to the file system, a duration prober, a transcription service, object storage and the
  database. Each call either returns or rejects, and what it changed before a rejection
  stays changed. A handler is therefore a function from the world before the call to a
  result (\<open>Inl\<close> a rejection, \<open>Inr\<close> the returned value) and the world after it.

  A name of the source that clashes with a HOL constant, an Isabelle keyword or another
  record's field takes a suffix or a prefix: \<open>id'\<close>, \<open>end'\<close>, \<open>transcript_u\<close> (of an
  utterance), \<open>transcript_t\<close> and \<open>title_t\<close> (of a transcription result), \<open>data_title\<close>
  (of the \<^verbatim>\<open>data\<close> argument of a write), \<open>position_v\<close> and \<open>duration_v\<close> (of the
  detail view). A request is passed as its fields.
\<close>

type_synonym buffer = "8 word list"
type_synonym timestamp = nat

datatype error =
    FsError string
  | NoEntry string
  | ProbeError string
  | TranscribeError string
  | StorageError string
  | UniqueConstraintFailed string
  | RecordNotFound string

text \<open>What \<^verbatim>\<open>console.log\<close> prints, and what a projected database read returns.\<close>

datatype jsval =
    JStr string
  | JInt int
  | JNum rat
  | JDate timestamp
  | JArr "jsval list"
  | JObj "(string \<times> jsval) list"

subsection \<open>The persisted schema\<close>

text \<open>
  Modelled from the spec: the schema file of the repository is not among the sources.
  Section 6 of the spec gives it as Recording(id, title, userId, recording_url,
  file_path, transcript, summary, duration, createdAt, updatedAt) with the child
  collections Topic(topic) and Utterance(speaker, transcript, start, end), each
  foreign-keyed to one Recording. The foreign key column is called \<open>conversationId\<close>
  here.
\<close>

record Conversation =
  id' :: string
  title :: string
  userId :: string
  recording_url :: string
  file_path :: string
  transcript :: string
  summary :: string
  duration :: int
  createdAt :: timestamp
  updatedAt :: timestamp

record topic_data =
  topic :: string

record Topic = topic_data +
  topic_conversationId :: string

record utterance_data =
  speaker :: string
  transcript_u :: string
  start :: rat
  end' :: rat

record Utterance = utterance_data +
  utterance_conversationId :: string

record database =
  conversation_table :: "Conversation list"
  topic_table :: "Topic list"
  utterance_table :: "Utterance list"
  id_seq :: nat

subsection \<open>The world and its environment\<close>

type_synonym storage = "string \<times> string \<Rightarrow> (buffer \<times> string) option"

record world =
  files :: "string \<Rightarrow> buffer option"
  bucket_store :: storage
  db :: database
  uuid_calls :: nat
  console :: "jsval list list"

text \<open>What \<^verbatim>\<open>transcribeFile\<close> resolves to; the handler reads each field as nullable.\<close>

record transcription =
  transcript_t :: string
  title_t :: "string option"
  shortSummary :: "string option"
  allTopics :: "string list option"
  allIntents :: "string list option"
  allUtterances :: "utterance_data list option"

text \<open>
  What the handlers import and the sources do not hold is a parameter: the constants of
  \<^verbatim>\<open>./constant\<close>, the wrappers of \<^verbatim>\<open>./apis/supabase\<close> and
  \<^verbatim>\<open>./apis/transcribe\<close>, and the libraries (uuid, the duration prober, the
  clock and its date string, the identifier the database gives a new row). A wrapper or
  a library call may reject; the duration is a rational number of seconds.
\<close>

record env =
  tmpdir :: string
  FILE_EXTENSION :: string
  BUCKET_NAME :: string
  uuid_v4 :: "nat \<Rightarrow> string"
  writeFile_error :: "string \<Rightarrow> error option"
  probe :: "buffer \<Rightarrow> error + rat"
  transcribeFile :: "buffer \<Rightarrow> error + transcription"
  uploadBuffer :: "string \<Rightarrow> string \<Rightarrow> buffer \<Rightarrow> string \<Rightarrow> storage \<Rightarrow> (error + unit) \<times> storage"
  generatePresignedUrl :: "string \<Rightarrow> string \<Rightarrow> storage \<Rightarrow> error + string"
  now :: timestamp
  toLocaleDateString :: "timestamp \<Rightarrow> string"
  default_id :: "nat \<Rightarrow> string"

section \<open>Awaited calls\<close>

type_synonym 'a io = "world \<Rightarrow> (error + 'a) \<times> world"

definition resolve :: "'a \<Rightarrow> 'a io" where
  "resolve x w = (Inr x, w)"

text \<open>\<open>await m k\<close>: run \<open>m\<close>; a rejection ends the handler there, a value goes on to \<open>k\<close>.\<close>

definition await :: "'a io \<Rightarrow> ('a \<Rightarrow> 'b io) \<Rightarrow> 'b io" where
  "await m k w = (case m w of (Inl e, w') \<Rightarrow> (Inl e, w') | (Inr x, w') \<Rightarrow> k x w')"

definition console_log :: "jsval list \<Rightarrow> unit io" where
  "console_log args w = (Inr (), w\<lparr>console := console w @ [args]\<rparr>)"

definition uuid :: "env \<Rightarrow> string io" where
  "uuid E w = (Inr (uuid_v4 E (uuid_calls w)), w\<lparr>uuid_calls := Suc (uuid_calls w)\<rparr>)"

text \<open>\<^verbatim>\<open>path.join\<close> of a directory and a file name that need no normalisation.\<close>

definition join :: "string \<Rightarrow> string \<Rightarrow> string" where
  "join dir name = dir @ ''/'' @ name"

subsection \<open>File system and duration prober\<close>

text \<open>
  The file system is a map from paths to contents. A write can be refused (the
  environment says for which paths); it creates or replaces the file. A removal fails on
  a missing file and on nothing else. The prober reads the file at the path and measures
  its contents, or rejects.
\<close>

definition writeFile :: "env \<Rightarrow> string \<Rightarrow> buffer \<Rightarrow> unit io" where
  "writeFile E path body w =
     (case writeFile_error E path of
        Some e \<Rightarrow> (Inl e, w)
      | None \<Rightarrow> (Inr (), w\<lparr>files := (files w)(path \<mapsto> body)\<rparr>))"

definition unlink :: "string \<Rightarrow> unit io" where
  "unlink path w =
     (case files w path of
        None \<Rightarrow> (Inl (NoEntry path), w)
      | Some _ \<Rightarrow> (Inr (), w\<lparr>files := (files w)(path := None)\<rparr>))"

definition getAudioDurationInSeconds :: "env \<Rightarrow> string \<Rightarrow> rat io" where
  "getAudioDurationInSeconds E path w =
     (case files w path of
        None \<Rightarrow> (Inl (NoEntry path), w)
      | Some body \<Rightarrow> (probe E body, w))"

text \<open>\<^verbatim>\<open>Math.round\<close>: the nearest integer, a tie going up.\<close>

definition Math_round :: "rat \<Rightarrow> int" where
  "Math_round x = \<lfloor>x + 1 / 2\<rfloor>"

subsection \<open>Object storage\<close>

definition upload :: "env \<Rightarrow> string \<Rightarrow> string \<Rightarrow> buffer \<Rightarrow> string \<Rightarrow> unit io" where
  "upload E bucket path body contentType w =
     (case uploadBuffer E bucket path body contentType (bucket_store w) of
        (r, s') \<Rightarrow> (r, w\<lparr>bucket_store := s'\<rparr>))"

definition presign :: "env \<Rightarrow> string \<Rightarrow> string \<Rightarrow> string io" where
  "presign E bucket path w = (generatePresignedUrl E bucket path (bucket_store w), w)"

definition transcribe :: "env \<Rightarrow> buffer \<Rightarrow> transcription io" where
  "transcribe E body w = (transcribeFile E body, w)"

subsection \<open>Persistence calls\<close>

text \<open>
  The calls of the database client as the handlers use them, on the three tables. The
  client is a library, generated from the schema; the database is taken to be reachable,
  so a call rejects only for what it is asked to do. A nested write is either absent
  (\<^verbatim>\<open>{}\<close>) or creates the given child rows (\<^verbatim>\<open>{create: [...]}\<close>) with the
  parent in one write. A read of a missing row gives null; a delete or an update of a
  missing row rejects with the client's not-found error.

  What the missing schema decides is taken from the spec: a new row takes its identifier
  and both timestamps from the schema's defaults, and a second row with the same
  identifier is refused (section 3: the identifier is generated and unique); a delete
  removes the row's children with it (section 4.4: children cascade via the schema).
\<close>

datatype 'a nested = NoNested | Create "'a list"

fun created :: "'a nested \<Rightarrow> 'a list" where
  "created NoNested = []"
| "created (Create xs) = xs"

record create_data =
  data_title :: string
  data_userId :: string
  data_recording_url :: string
  data_file_path :: string
  data_transcript :: string
  data_summary :: string
  data_topics :: "topic_data nested"
  data_utterances :: "utterance_data nested"
  data_duration :: int

definition new_row :: "string \<Rightarrow> timestamp \<Rightarrow> create_data \<Rightarrow> Conversation" where
  "new_row i t d =
     \<lparr>id' = i, title = data_title d, userId = data_userId d,
      recording_url = data_recording_url d, file_path = data_file_path d,
      transcript = data_transcript d, summary = data_summary d,
      duration = data_duration d, createdAt = t, updatedAt = t\<rparr>"

definition topic_row :: "string \<Rightarrow> topic_data \<Rightarrow> Topic" where
  "topic_row i x = \<lparr>topic = topic x, topic_conversationId = i\<rparr>"

definition utterance_row :: "string \<Rightarrow> utterance_data \<Rightarrow> Utterance" where
  "utterance_row i x =
     \<lparr>speaker = speaker x, transcript_u = transcript_u x, start = start x, end' = end' x,
      utterance_conversationId = i\<rparr>"

definition find_row :: "database \<Rightarrow> string \<Rightarrow> Conversation option" where
  "find_row d i = find (\<lambda>r. id' r = i) (conversation_table d)"

definition topics_of :: "database \<Rightarrow> string \<Rightarrow> Topic list" where
  "topics_of d i = filter (\<lambda>x. topic_conversationId x = i) (topic_table d)"

definition utterances_of :: "database \<Rightarrow> string \<Rightarrow> Utterance list" where
  "utterances_of d i = filter (\<lambda>x. utterance_conversationId x = i) (utterance_table d)"

definition conversation_create :: "env \<Rightarrow> create_data \<Rightarrow> Conversation io" where
  "conversation_create E d w =
     (let i = default_id E (id_seq (db w)) in
      case find_row (db w) i of
        Some _ \<Rightarrow> (Inl (UniqueConstraintFailed i), w)
      | None \<Rightarrow>
          (Inr (new_row i (now E) d),
           w\<lparr>db := (db w)\<lparr>
             conversation_table := conversation_table (db w) @ [new_row i (now E) d],
             topic_table := topic_table (db w) @ map (topic_row i) (created (data_topics d)),
             utterance_table :=
               utterance_table (db w) @ map (utterance_row i) (created (data_utterances d)),
             id_seq := Suc (id_seq (db w))\<rparr>\<rparr>))"

record ConversationInclude = Conversation +
  topics :: "Topic list"
  utterances :: "Utterance list"

definition conversation_findUnique_include :: "string \<Rightarrow> ConversationInclude option io" where
  "conversation_findUnique_include i w =
     (case find_row (db w) i of
        None \<Rightarrow> (Inr None, w)
      | Some r \<Rightarrow>
          (Inr (Some (Conversation.extend r
             \<lparr>topics = topics_of (db w) i, utterances = utterances_of (db w) i\<rparr>)), w))"

text \<open>
  A read with \<^verbatim>\<open>select\<close> returns, of the row with its relations, the properties
  whose names are selected.
\<close>

definition topic_object :: "Topic \<Rightarrow> jsval" where
  "topic_object x =
     JObj [(''topic'', JStr (topic x)), (''conversationId'', JStr (topic_conversationId x))]"

definition utterance_object :: "Utterance \<Rightarrow> jsval" where
  "utterance_object x =
     JObj [(''speaker'', JStr (speaker x)), (''transcript'', JStr (transcript_u x)),
           (''start'', JNum (start x)), (''end'', JNum (end' x)),
           (''conversationId'', JStr (utterance_conversationId x))]"

definition conversation_scalars :: "Conversation \<Rightarrow> (string \<times> jsval) list" where
  "conversation_scalars r =
     [(''id'', JStr (id' r)), (''title'', JStr (title r)), (''userId'', JStr (userId r)),
      (''recording_url'', JStr (recording_url r)), (''file_path'', JStr (file_path r)),
      (''transcript'', JStr (transcript r)), (''summary'', JStr (summary r)),
      (''duration'', JInt (duration r)), (''createdAt'', JDate (createdAt r)),
      (''updatedAt'', JDate (updatedAt r))]"

definition conversation_properties :: "database \<Rightarrow> Conversation \<Rightarrow> (string \<times> jsval) list" where
  "conversation_properties d r =
     conversation_scalars r @
     [(''topics'', JArr (map topic_object (topics_of d (id' r)))),
      (''utterances'', JArr (map utterance_object (utterances_of d (id' r))))]"

definition select_properties :: "string list \<Rightarrow> (string \<times> jsval) list \<Rightarrow> (string \<times> jsval) list" where
  "select_properties sel props = filter (\<lambda>p. fst p \<in> set sel) props"

definition conversation_findMany_select ::
  "string \<Rightarrow> string list \<Rightarrow> (string \<times> jsval) list list io" where
  "conversation_findMany_select u sel w =
     (Inr (map (\<lambda>r. select_properties sel (conversation_properties (db w) r))
             (filter (\<lambda>r. userId r = u) (conversation_table (db w)))), w)"

definition conversation_delete :: "string \<Rightarrow> Conversation io" where
  "conversation_delete i w =
     (case find_row (db w) i of
        None \<Rightarrow> (Inl (RecordNotFound i), w)
      | Some r \<Rightarrow>
          (Inr r,
           w\<lparr>db := (db w)\<lparr>
             conversation_table := filter (\<lambda>x. id' x \<noteq> i) (conversation_table (db w)),
             topic_table := filter (\<lambda>x. topic_conversationId x \<noteq> i) (topic_table (db w)),
             utterance_table :=
               filter (\<lambda>x. utterance_conversationId x \<noteq> i) (utterance_table (db w))\<rparr>\<rparr>))"

text \<open>
  Modelled from the spec: the update of the persistence layer, whose schema is not among
  the sources. Section 4.5: it overwrites the given fields on the Recording row, and
  unspecified fields are left untouched by the partial-update semantics of the call. The
  handler gives it a title and a transcript, each of which may be absent.
\<close>

definition overwrite :: "'a option \<Rightarrow> 'a \<Rightarrow> 'a" where
  "overwrite given old = (case given of None \<Rightarrow> old | Some v \<Rightarrow> v)"

definition conversation_update ::
  "string \<Rightarrow> string option \<Rightarrow> string option \<Rightarrow> Conversation io" where
  "conversation_update i new_title new_transcript w =
     (case find_row (db w) i of
        None \<Rightarrow> (Inl (RecordNotFound i), w)
      | Some r \<Rightarrow>
          (let r' = r\<lparr>title := overwrite new_title (title r),
                       transcript := overwrite new_transcript (transcript r)\<rparr>
           in (Inr r',
               w\<lparr>db := (db w)\<lparr>conversation_table :=
                 map (\<lambda>x. if id' x = i then r' else x) (conversation_table (db w))\<rparr>\<rparr>)))"

section \<open>The handlers of controllers.ts\<close>

record CreateResponse = Conversation +
  filePath :: string

definition createRecording :: "env \<Rightarrow> string \<Rightarrow> buffer \<Rightarrow> CreateResponse io" where
  "createRecording E user recordingBody =
     await (uuid E) (\<lambda>u.
     let tempFilePath = join (tmpdir E) (u @ FILE_EXTENSION E) in
     await (writeFile E tempFilePath recordingBody) (\<lambda>_.
     await (getAudioDurationInSeconds E tempFilePath) (\<lambda>seconds.
     let durationInSeconds = Math_round seconds in
     await (console_log [JStr ''durationInSeconds: '', JInt durationInSeconds]) (\<lambda>_.
     await (unlink tempFilePath) (\<lambda>_.
     await (transcribe E recordingBody) (\<lambda>t.
     await (console_log [JStr ''file transcribed successfully'']) (\<lambda>_.
     await (uuid E) (\<lambda>recordingId.
     let filePath = user @ ''/'' @ recordingId @ FILE_EXTENSION E in
     await (upload E (BUCKET_NAME E) filePath recordingBody ''audio/x-m4a'') (\<lambda>_.
     await (conversation_create E
       \<lparr>data_title =
          (case title_t t of
             Some x \<Rightarrow> x
           | None \<Rightarrow> ''conversation_'' @ toLocaleDateString E (now E)),
        data_userId = user,
        data_recording_url = '''',
        data_file_path = filePath,
        data_transcript = transcript_t t,
        data_summary = (case shortSummary t of Some x \<Rightarrow> x | None \<Rightarrow> ''''),
        data_topics =
          (case allTopics t of
             Some xs \<Rightarrow> Create (map (\<lambda>x. \<lparr>topic = x\<rparr>) xs)
           | None \<Rightarrow> NoNested),
        data_utterances =
          (case allUtterances t of
             Some xs \<Rightarrow>
               Create (map (\<lambda>x. \<lparr>speaker = speaker x, transcript_u = transcript_u x,
                                  start = start x, end' = end' x\<rparr>) xs)
           | None \<Rightarrow> NoNested),
        data_duration = durationInSeconds\<rparr>) (\<lambda>newRecording.
     await (console_log [JStr ''Created recording in db successfully'']) (\<lambda>_.
     resolve (Conversation.extend
       (newRecording\<lparr>transcript := transcript_t t,
                     summary := (case shortSummary t of Some x \<Rightarrow> x | None \<Rightarrow> '''')\<rparr>)
       \<lparr>filePath = filePath\<rparr>))))))))))))"

record GetResponse = ConversationInclude +
  recordingUrl :: string

definition getRecording :: "env \<Rightarrow> string \<Rightarrow> GetResponse option io" where
  "getRecording E recordingId =
     await (conversation_findUnique_include recordingId) (\<lambda>conversation.
     case conversation of
       Some c \<Rightarrow>
         await (presign E (BUCKET_NAME E) (file_path c)) (\<lambda>url.
         resolve (Some (ConversationInclude.extend c \<lparr>recordingUrl = url\<rparr>)))
     | None \<Rightarrow> resolve None)"

definition listRecordings :: "string \<Rightarrow> (string \<times> jsval) list list io" where
  "listRecordings user =
     await (conversation_findMany_select user
       [''id'', ''title'', ''topics'', ''createdAt'', ''updatedAt'', ''duration''])
     (\<lambda>conversationsInfo. resolve conversationsInfo)"

definition deleteRecording :: "string \<Rightarrow> Conversation io" where
  "deleteRecording recordingId =
     await (conversation_delete recordingId) (\<lambda>result.
     await (console_log [JObj (conversation_scalars result)]) (\<lambda>_.
     resolve result))"

definition updateRecording :: "string \<Rightarrow> string option \<Rightarrow> string option \<Rightarrow> Conversation io" where
  "updateRecording recordingId new_title new_transcript =
     await (conversation_update recordingId new_title new_transcript) (\<lambda>result.
     await (console_log [JObj (conversation_scalars result)]) (\<lambda>_.
     resolve result))"

section \<open>The playback-status callback of RecordingDetails.tsx\<close>

text \<open>
  The status the player passes to the callback: not loaded (with an optional error
  text), or loaded with the position, the duration when it is known, and whether playback
  has just run to its end. The view keeps the observed position and duration and the
  playing flag in its state.
\<close>

record loaded_status =
  positionMillis :: int
  durationMillis :: "int option"
  didJustFinish :: bool

datatype AVPlaybackStatus = NotLoaded "string option" | Loaded loaded_status

record view_state =
  position_v :: int
  duration_v :: int
  isPlaying :: bool

text \<open>\<^verbatim>\<open>x || 0\<close> on an optional number: 0 when \<open>x\<close> is undefined or 0, else \<open>x\<close>.\<close>

definition or_zero :: "int option \<Rightarrow> int" where
  "or_zero x = (case x of None \<Rightarrow> 0 | Some v \<Rightarrow> (if v = 0 then 0 else v))"

text \<open>
  The callback has two tests, one after the other: a loaded status sets the position and
  the duration; a loaded status that has just finished clears the playing flag.
\<close>

definition onPlaybackStatusUpdate :: "AVPlaybackStatus \<Rightarrow> view_state \<Rightarrow> view_state" where
  "onPlaybackStatusUpdate status v =
     (let v1 = (case status of
                  Loaded s \<Rightarrow>
                    v\<lparr>position_v := positionMillis s,
                      duration_v := or_zero (durationMillis s)\<rparr>
                | NotLoaded _ \<Rightarrow> v)
      in case status of
           Loaded s \<Rightarrow> (if didJustFinish s then v1\<lparr>isPlaying := False\<rparr> else v1)
         | NotLoaded _ \<Rightarrow> v1)"

section \<open>Names for the parts of one call of createRecording\<close>

text \<open>
  The scratch path, the object path and the \<^verbatim>\<open>data\<close> argument that
  \<open>createRecording\<close> computes in a world \<open>w\<close>: its first uuid names the scratch file,
  its second the stored object.
\<close>

definition scratch_path :: "env \<Rightarrow> world \<Rightarrow> string" where
  "scratch_path E w = join (tmpdir E) (uuid_v4 E (uuid_calls w) @ FILE_EXTENSION E)"

definition object_path :: "env \<Rightarrow> string \<Rightarrow> world \<Rightarrow> string" where
  "object_path E user w = user @ ''/'' @ uuid_v4 E (Suc (uuid_calls w)) @ FILE_EXTENSION E"

definition written_data :: "env \<Rightarrow> string \<Rightarrow> world \<Rightarrow> transcription \<Rightarrow> rat \<Rightarrow> create_data" where
  "written_data E user w t d =
     \<lparr>data_title =
        (case title_t t of
           Some x \<Rightarrow> x
         | None \<Rightarrow> ''conversation_'' @ toLocaleDateString E (now E)),
      data_userId = user,
      data_recording_url = '''',
      data_file_path = object_path E user w,
      data_transcript = transcript_t t,
      data_summary = (case shortSummary t of Some x \<Rightarrow> x | None \<Rightarrow> ''''),
      data_topics =
        (case allTopics t of
           Some xs \<Rightarrow> Create (map (\<lambda>x. \<lparr>topic = x\<rparr>) xs)
         | None \<Rightarrow> NoNested),
      data_utterances =
        (case allUtterances t of
           Some xs \<Rightarrow>
             Create (map (\<lambda>x. \<lparr>speaker = speaker x, transcript_u = transcript_u x,
                                start = start x, end' = end' x\<rparr>) xs)
         | None \<Rightarrow> NoNested),
      data_duration = Math_round d\<rparr>"

text \<open>The same world with another text in every stored \<open>recording_url\<close>.\<close>

definition with_recording_url :: "string \<Rightarrow> world \<Rightarrow> world" where
  "with_recording_url u w =
     w\<lparr>db := (db w)\<lparr>conversation_table :=
       map (\<lambda>r. r\<lparr>recording_url := u\<rparr>) (conversation_table (db w))\<rparr>\<rparr>"

text \<open>What a caller of \<open>getRecording\<close> sees of \<open>recordingUrl\<close>.\<close>

definition seen_recordingUrl :: "(error + GetResponse option) \<times> world \<Rightarrow> error + string option" where
  "seen_recordingUrl res =
     (case fst res of Inl e \<Rightarrow> Inl e | Inr resp \<Rightarrow> Inr (map_option recordingUrl resp))"

section \<open>A concrete environment\<close>

text \<open>
  The scenario of the spec: a 42-second audio buffer and a transcription stub that
  returns a transcript, no title, a summary, one topic and one utterance; and two
  variations, one whose audio cannot be measured and one whose transcription has a title
  but neither summary nor lists.
\<close>

definition put_object ::
  "string \<Rightarrow> string \<Rightarrow> buffer \<Rightarrow> string \<Rightarrow> storage \<Rightarrow> (error + unit) \<times> storage" where
  "put_object bucket path body contentType s =
     (Inr (), s((bucket, path) \<mapsto> (body, contentType)))"

definition demo_transcription :: transcription where
  "demo_transcription =
     \<lparr>transcript_t = ''hi'', title_t = None, shortSummary = Some ''s'',
      allTopics = Some [''greeting''], allIntents = None,
      allUtterances =
        Some [\<lparr>speaker = ''A'', transcript_u = ''hi'', start = 0, end' = 1\<rparr>]\<rparr>"

definition bare_transcription :: transcription where
  "bare_transcription =
     \<lparr>transcript_t = ''hello there'', title_t = Some ''Greeting'', shortSummary = None,
      allTopics = None, allIntents = None, allUtterances = None\<rparr>"

definition env0 :: env where
  "env0 =
     \<lparr>tmpdir = ''/tmp'', FILE_EXTENSION = ''.m4a'', BUCKET_NAME = ''recordings'',
      uuid_v4 = (\<lambda>n. if n = 0 then ''u0'' else ''u1''),
      writeFile_error = (\<lambda>_. None),
      probe = (\<lambda>_. Inr (847 / 20)),
      transcribeFile = (\<lambda>_. Inr demo_transcription),
      uploadBuffer = put_object,
      generatePresignedUrl = (\<lambda>bucket path _. Inr (''https://'' @ bucket @ ''/'' @ path)),
      now = 1700000000,
      toLocaleDateString = (\<lambda>_. ''11/14/2023''),
      default_id = (\<lambda>n. if n = 0 then ''c0'' else ''c1'')\<rparr>"

definition env_unreadable :: env where
  "env_unreadable = env0\<lparr>probe := (\<lambda>_. Inl (ProbeError ''unreadable''))\<rparr>"

definition env_bare :: env where
  "env_bare = env0\<lparr>transcribeFile := (\<lambda>_. Inr bare_transcription)\<rparr>"

definition world0 :: world where
  "world0 =
     \<lparr>files = (\<lambda>_. None), bucket_store = (\<lambda>_. None),
      db = \<lparr>conversation_table = [], topic_table = [], utterance_table = [], id_seq = 0\<rparr>,
      uuid_calls = 0, console = []\<rparr>"

definition row0 :: Conversation where
  "row0 =
     \<lparr>id' = ''c0'', title = ''conversation_11/14/2023'', userId = ''user1'',
      recording_url = '''', file_path = ''user1/u1.m4a'', transcript = ''hi'',
      summary = ''s'', duration = 42, createdAt = 1700000000, updatedAt = 1700000000\<rparr>"

definition world1 :: world where
  "world1 =
     \<lparr>files = (\<lambda>_. None),
      bucket_store =
        (\<lambda>_. None)((''recordings'', ''user1/u1.m4a'') \<mapsto> ([1, 2, 3], ''audio/x-m4a'')),
      db = \<lparr>conversation_table = [row0],
            topic_table = [\<lparr>topic = ''greeting'', topic_conversationId = ''c0''\<rparr>],
            utterance_table =
              [\<lparr>speaker = ''A'', transcript_u = ''hi'', start = 0, end' = 1,
                utterance_conversationId = ''c0''\<rparr>],
            id_seq = 1\<rparr>,
      uuid_calls = 2,
      console =
        [[JStr ''durationInSeconds: '', JInt 42],
         [JStr ''file transcribed successfully''],
         [JStr ''Created recording in db successfully'']]\<rparr>"

definition response0 :: CreateResponse where
  "response0 = Conversation.extend row0 \<lparr>filePath = ''user1/u1.m4a''\<rparr>"

definition listed0 :: "(string \<times> jsval) list" where
  "listed0 =
     [(''id'', JStr ''c0''), (''title'', JStr ''conversation_11/14/2023''),
      (''duration'', JInt 42), (''createdAt'', JDate 1700000000),
      (''updatedAt'', JDate 1700000000),
      (''topics'', JArr [JObj [(''topic'', JStr ''greeting''),
                               (''conversationId'', JStr ''c0'')]])]"

section \<open>What a call of createRecording does\<close>

lemmas io_defs = await_def resolve_def console_log_def uuid_def writeFile_def
  unlink_def getAudioDurationInSeconds_def upload_def presign_def transcribe_def

lemma find_snoc:
  "find P xs = None \<Longrightarrow> P x \<Longrightarrow> find P (xs @ [x]) = Some x"
  by (induction xs) (auto split: if_splits)

lemma extend_id [simp]: "id' (Conversation.extend r m) = id' r"
  by (simp add: Conversation.extend_def)

lemma extend_duration [simp]: "duration (Conversation.extend r m) = duration r"
  by (simp add: Conversation.extend_def)

lemma new_row_id [simp]: "id' (new_row i ts d) = i"
  by (simp add: new_row_def)

text \<open>
  When every awaited call resolves, the handler resolves: it returns the new row with
  the object path, and leaves the scratch file removed, the object uploaded, one row and
  its children written, two uuids drawn and three lines logged.
\<close>

lemma createRecording_returns:
  assumes wr: "writeFile_error E (scratch_path E w) = None"
    and pr: "probe E body = Inr d"
    and tr: "transcribeFile E body = Inr t"
    and up: "uploadBuffer E (BUCKET_NAME E) (object_path E user w) body ''audio/x-m4a''
               (bucket_store w) = (Inr (), s')"
    and fresh: "find_row (db w) (default_id E (id_seq (db w))) = None"
  shows "createRecording E user body w =
     (Inr (Conversation.extend
        (new_row (default_id E (id_seq (db w))) (now E) (written_data E user w t d))
        \<lparr>filePath = object_path E user w\<rparr>),
      w\<lparr>files := (files w)(scratch_path E w := None),
        bucket_store := s',
        db := (db w)\<lparr>
          conversation_table := conversation_table (db w) @
            [new_row (default_id E (id_seq (db w))) (now E) (written_data E user w t d)],
          topic_table := topic_table (db w) @
            map (topic_row (default_id E (id_seq (db w))))
              (created (data_topics (written_data E user w t d))),
          utterance_table := utterance_table (db w) @
            map (utterance_row (default_id E (id_seq (db w))))
              (created (data_utterances (written_data E user w t d))),
          id_seq := Suc (id_seq (db w))\<rparr>,
        uuid_calls := Suc (Suc (uuid_calls w)),
        console := console w @
          [[JStr ''durationInSeconds: '', JInt (Math_round d)],
           [JStr ''file transcribed successfully''],
           [JStr ''Created recording in db successfully'']]\<rparr>)"
  using assms
  by (simp add: createRecording_def io_defs Let_def conversation_create_def
      scratch_path_def object_path_def written_data_def join_def new_row_def)

text \<open>Conversely, the handler resolves only when every awaited call has resolved.\<close>

lemma createRecording_resolved:
  assumes "createRecording E user body w = (Inr r, w')"
  shows "\<exists>d t s'.
     writeFile_error E (scratch_path E w) = None \<and>
     probe E body = Inr d \<and>
     transcribeFile E body = Inr t \<and>
     uploadBuffer E (BUCKET_NAME E) (object_path E user w) body ''audio/x-m4a''
       (bucket_store w) = (Inr (), s') \<and>
     find_row (db w) (default_id E (id_seq (db w))) = None"
  using assms
  by (auto simp add: createRecording_def io_defs Let_def conversation_create_def
      scratch_path_def object_path_def join_def
      split: option.splits sum.splits prod.splits)

lemma createRecording_stored:
  assumes ok: "createRecording E user body w = (Inr r, w')"
  shows "\<exists>d t. probe E body = Inr d \<and> transcribeFile E body = Inr t \<and>
     r = Conversation.extend
           (new_row (default_id E (id_seq (db w))) (now E) (written_data E user w t d))
           \<lparr>filePath = object_path E user w\<rparr> \<and>
     find_row (db w') (id' r) =
       Some (new_row (default_id E (id_seq (db w))) (now E) (written_data E user w t d)) \<and>
     conversation_table (db w') = conversation_table (db w) @
       [new_row (default_id E (id_seq (db w))) (now E) (written_data E user w t d)] \<and>
     topic_table (db w') = topic_table (db w) @
       map (topic_row (default_id E (id_seq (db w))))
         (created (data_topics (written_data E user w t d))) \<and>
     utterance_table (db w') = utterance_table (db w) @
       map (utterance_row (default_id E (id_seq (db w))))
         (created (data_utterances (written_data E user w t d)))"
proof -
  from createRecording_resolved [OF ok] obtain d t s' where
    wr: "writeFile_error E (scratch_path E w) = None" and
    pr: "probe E body = Inr d" and
    tr: "transcribeFile E body = Inr t" and
    up: "uploadBuffer E (BUCKET_NAME E) (object_path E user w) body ''audio/x-m4a''
           (bucket_store w) = (Inr (), s')" and
    fresh: "find_row (db w) (default_id E (id_seq (db w))) = None"
    by blast
  let ?row = "new_row (default_id E (id_seq (db w))) (now E) (written_data E user w t d)"
  from createRecording_returns [OF wr pr tr up fresh] ok
  have r: "r = Conversation.extend ?row \<lparr>filePath = object_path E user w\<rparr>"
    and tab: "conversation_table (db w') = conversation_table (db w) @ [?row]"
    and top: "topic_table (db w') = topic_table (db w) @
       map (topic_row (default_id E (id_seq (db w))))
         (created (data_topics (written_data E user w t d)))"
    and utt: "utterance_table (db w') = utterance_table (db w) @
       map (utterance_row (default_id E (id_seq (db w))))
         (created (data_utterances (written_data E user w t d)))"
    by auto
  from fresh have "find_row (db w') (id' r) = Some ?row"
    unfolding find_row_def tab r by (simp add: find_snoc)
  with pr tr r tab top utt show ?thesis by blast
qed

text \<open>When the measurement rejects, the handler stops there, after the scratch write.\<close>

lemma createRecording_probe_rejects:
  assumes "writeFile_error E (scratch_path E w) = None"
    and "probe E body = Inl e"
  shows "createRecording E user body w =
     (Inl e, w\<lparr>files := (files w)(scratch_path E w \<mapsto> body),
               uuid_calls := Suc (uuid_calls w)\<rparr>)"
  using assms
  by (simp add: createRecording_def io_defs Let_def scratch_path_def join_def)

subsection \<open>The scenario of the spec\<close>

lemma env0_simps:
  "tmpdir env0 = ''/tmp''" "FILE_EXTENSION env0 = ''.m4a''" "BUCKET_NAME env0 = ''recordings''"
  "uuid_v4 env0 n = (if n = 0 then ''u0'' else ''u1'')"
  "writeFile_error env0 p = None"
  "probe env0 b = Inr (847 / 20)"
  "transcribeFile env0 b = Inr demo_transcription"
  "uploadBuffer env0 = put_object"
  "generatePresignedUrl env0 bucket path s = Inr (''https://'' @ bucket @ ''/'' @ path)"
  "now env0 = 1700000000"
  "toLocaleDateString env0 ts = ''11/14/2023''"
  "default_id env0 n = (if n = 0 then ''c0'' else ''c1'')"
  by (simp_all add: env0_def)

lemma Math_round_demo: "Math_round (847 / 20) = 42"
  unfolding Math_round_def by code_simp

text \<open>
  A 42-second buffer and the transcription stub give a stored duration of 42, the
  placeholder title, one Topic row and one Utterance row.
\<close>

lemma scenario0: "createRecording env0 ''user1'' [1, 2, 3] world0 = (Inr response0, world1)"
  unfolding response0_def
  apply (subst createRecording_returns [where d = "847 / 20" and t = demo_transcription
     and s' = "(\<lambda>_. None)((''recordings'', ''user1/u1.m4a'') \<mapsto> ([1, 2, 3], ''audio/x-m4a''))"])
       apply (simp_all add: env0_simps scratch_path_def object_path_def put_object_def
      world0_def find_row_def)
  apply (simp add: world1_def row0_def new_row_def written_data_def demo_transcription_def
      Math_round_demo object_path_def env0_simps topic_row_def utterance_row_def)
  done

lemma world1_row0: "find_row (db world1) ''c0'' = Some row0"
  by (simp add: find_row_def world1_def row0_def)

subsection \<open>Rounding\<close>

lemma Math_round_nearest: "\<bar>of_int (Math_round x) - x\<bar> \<le> \<bar>of_int k - x\<bar>"
  using round_diff_minimal [of x k] by (simp add: Math_round_def round_def abs_minus_commute)

lemma Math_round_half: "\<bar>of_int (Math_round x) - x\<bar> \<le> 1 / 2"
  using of_int_round_abs_le [of x] by (simp add: Math_round_def round_def)

section \<open>The claims about createRecording\<close>

text \<open>
  C1, as amended. The claim says the scratch file is removed on every exit path, also
  when the duration measurement fails. The handler catches no rejection and the removal
  is the statement after the measurement, so a rejected measurement ends the call with
  the scratch file in place. What holds: in every call whose scratch write and duration
  measurement succeed, the scratch file is gone when the call ends, whether the later
  steps (transcription, upload, database write) resolve or reject.
\<close>

theorem createRecording_scratch_file_removed:
  assumes "writeFile_error E (scratch_path E w) = None"
    and "probe E body = Inr d"
  shows "files (snd (createRecording E user body w)) (scratch_path E w) = None"
  using assms
  by (simp add: createRecording_def io_defs Let_def conversation_create_def
      scratch_path_def join_def
      split: option.splits sum.splits prod.splits)

theorem createRecording_scratch_file_removed_witness:
  "writeFile_error env0 (scratch_path env0 world0) = None \<and>
   probe env0 [1, 2, 3] = Inr (847 / 20) \<and>
   scratch_path env0 world0 = ''/tmp/u0.m4a'' \<and>
   files (snd (createRecording env0 ''user1'' [1, 2, 3] world0)) ''/tmp/u0.m4a'' = None"
  using createRecording_scratch_file_removed [of env0 world0 "[1, 2, 3]" "847 / 20" "''user1''"]
  by (simp add: env0_simps scratch_path_def join_def world0_def)

text \<open>
  C1, the counterexample: the prober rejects the audio; the call rejects with the
  prober's error and the scratch file \<^verbatim>\<open>/tmp/u0.m4a\<close> still holds the submitted bytes.
\<close>

theorem createRecording_scratch_file_left:
  "probe env_unreadable [1, 2, 3] = Inl (ProbeError ''unreadable'') \<and>
   fst (createRecording env_unreadable ''user1'' [1, 2, 3] world0) =
     Inl (ProbeError ''unreadable'') \<and>
   scratch_path env_unreadable world0 = ''/tmp/u0.m4a'' \<and>
   files (snd (createRecording env_unreadable ''user1'' [1, 2, 3] world0)) ''/tmp/u0.m4a'' =
     Some [1, 2, 3]"
proof -
  have wr: "writeFile_error env_unreadable (scratch_path env_unreadable world0) = None"
    by (simp add: env_unreadable_def env0_def)
  have pr: "probe env_unreadable [1, 2, 3] = Inl (ProbeError ''unreadable'')"
    by (simp add: env_unreadable_def)
  have sp: "scratch_path env_unreadable world0 = ''/tmp/u0.m4a''"
    by (simp add: scratch_path_def join_def env_unreadable_def env0_def world0_def)
  show ?thesis
    using createRecording_probe_rejects [OF wr pr, of "''user1''"] pr sp by simp
qed

text \<open>
  C2. In every call of createRecording that resolves, the stored Recording's title is
  \<^verbatim>\<open>conversation_\<close> followed by the current date string when the transcription
  result has no title, and the transcription's title, unchanged, when it has one.
\<close>

theorem createRecording_stored_title:
  assumes "createRecording E user body w = (Inr r, w')"
    and "transcribeFile E body = Inr t"
  shows "\<exists>row. find_row (db w') (id' r) = Some row \<and>
     (title_t t = None \<longrightarrow> title row = ''conversation_'' @ toLocaleDateString E (now E)) \<and>
     (\<forall>x. title_t t = Some x \<longrightarrow> title row = x)"
  using createRecording_stored [OF assms(1)] assms(2)
  by (auto simp add: new_row_def written_data_def)

theorem createRecording_stored_title_witness:
  "createRecording env0 ''user1'' [1, 2, 3] world0 = (Inr response0, world1) \<and>
   transcribeFile env0 [1, 2, 3] = Inr demo_transcription \<and>
   title_t demo_transcription = None \<and>
   find_row (db world1) (id' response0) = Some row0 \<and>
   title row0 = ''conversation_'' @ toLocaleDateString env0 (now env0)"
  using createRecording_stored_title [OF scenario0, of demo_transcription]
  by (simp add: scenario0 env0_simps demo_transcription_def response0_def world1_row0 row0_def)

text \<open>
  C3. In every call of createRecording that resolves, the returned Recording's duration
  is the probed length of the submitted audio, in seconds, rounded to the nearest whole
  second: it is \<^verbatim>\<open>Math.round\<close> of the probed length, at most half a second from it,
  and no integer is nearer.
\<close>

theorem createRecording_duration:
  assumes "createRecording E user body w = (Inr r, w')"
    and "probe E body = Inr d"
  shows "duration r = Math_round d \<and>
     \<bar>of_int (duration r) - d\<bar> \<le> 1 / 2 \<and>
     (\<forall>k. \<bar>of_int (duration r) - d\<bar> \<le> \<bar>of_int k - d\<bar>)"
proof -
  from createRecording_stored [OF assms(1)] assms(2)
  have "duration r = Math_round d"
    by (auto simp add: new_row_def written_data_def)
  then show ?thesis
    using Math_round_half [of d] Math_round_nearest [of d] by simp
qed

theorem createRecording_duration_witness:
  "createRecording env0 ''user1'' [1, 2, 3] world0 = (Inr response0, world1) \<and>
   probe env0 [1, 2, 3] = Inr (847 / 20) \<and>
   duration response0 = 42 \<and> Math_round (847 / 20) = 42"
  using createRecording_duration [OF scenario0, of "847 / 20"]
  by (simp add: scenario0 env0_simps response0_def row0_def Math_round_demo)

lemma env_bare_simps:
  "tmpdir env_bare = ''/tmp''" "FILE_EXTENSION env_bare = ''.m4a''"
  "BUCKET_NAME env_bare = ''recordings''"
  "uuid_v4 env_bare n = (if n = 0 then ''u0'' else ''u1'')"
  "writeFile_error env_bare p = None"
  "probe env_bare b = Inr (847 / 20)"
  "transcribeFile env_bare b = Inr bare_transcription"
  "uploadBuffer env_bare = put_object"
  "default_id env_bare n = (if n = 0 then ''c0'' else ''c1'')"
  by (simp_all add: env_bare_def env0_def)

text \<open>
  C10. When the transcription result has no topic list (respectively no utterance list)
  and every awaited call resolves, createRecording resolves: it writes the Recording row
  and adds no Topic row (respectively no Utterance row).
\<close>

theorem createRecording_without_lists:
  assumes "writeFile_error E (scratch_path E w) = None"
    and "probe E body = Inr d"
    and "transcribeFile E body = Inr t"
    and "uploadBuffer E (BUCKET_NAME E) (object_path E user w) body ''audio/x-m4a''
           (bucket_store w) = (Inr (), s')"
    and "find_row (db w) (default_id E (id_seq (db w))) = None"
  shows "\<exists>r w'. createRecording E user body w = (Inr r, w') \<and>
     (\<exists>row. conversation_table (db w') = conversation_table (db w) @ [row] \<and>
            id' row = id' r) \<and>
     (allTopics t = None \<longrightarrow> topic_table (db w') = topic_table (db w)) \<and>
     (allUtterances t = None \<longrightarrow> utterance_table (db w') = utterance_table (db w))"
  unfolding createRecording_returns [OF assms]
  by (simp add: written_data_def)

theorem createRecording_without_lists_witness:
  "writeFile_error env_bare (scratch_path env_bare world0) = None \<and>
   probe env_bare [1, 2, 3] = Inr (847 / 20) \<and>
   transcribeFile env_bare [1, 2, 3] = Inr bare_transcription \<and>
   allTopics bare_transcription = None \<and> allUtterances bare_transcription = None \<and>
   find_row (db world0) (default_id env_bare (id_seq (db world0))) = None \<and>
   (\<exists>r w'. createRecording env_bare ''user1'' [1, 2, 3] world0 = (Inr r, w') \<and>
      (\<exists>row. conversation_table (db w') = [row] \<and> id' row = id' r) \<and>
      topic_table (db w') = [] \<and> utterance_table (db w') = [])"
  using createRecording_without_lists [of env_bare world0 "[1, 2, 3]" "847 / 20"
      bare_transcription "''user1''"
      "(\<lambda>_. None)((''recordings'', ''user1/u1.m4a'') \<mapsto> ([1, 2, 3], ''audio/x-m4a''))"]
  by (simp add: env_bare_simps bare_transcription_def world0_def find_row_def
      object_path_def put_object_def)

section \<open>The claims about getRecording\<close>

lemma find_map_keeping:
  "(\<And>x. P (f x) = P x) \<Longrightarrow> find P (map f xs) = map_option f (find P xs)"
  by (induction xs) auto

lemma getRecording_null:
  "find_row (db w) i = None \<Longrightarrow> getRecording E i w = (Inr None, w)"
  by (simp add: getRecording_def conversation_findUnique_include_def await_def resolve_def)

lemma getRecording_found:
  assumes "find_row (db w) i = Some row"
  shows "getRecording E i w =
     (case generatePresignedUrl E (BUCKET_NAME E) (file_path row) (bucket_store w) of
        Inl e \<Rightarrow> (Inl e, w)
      | Inr url \<Rightarrow>
          (Inr (Some (ConversationInclude.extend
             (Conversation.extend row
               \<lparr>topics = topics_of (db w) i, utterances = utterances_of (db w) i\<rparr>)
             \<lparr>recordingUrl = url\<rparr>)), w))"
  using assms
  by (simp add: getRecording_def conversation_findUnique_include_def await_def resolve_def
      presign_def Conversation.extend_def split: sum.splits)

lemma response_fields:
  "Conversation.truncate (ConversationInclude.extend (Conversation.extend row
      \<lparr>topics = ts, utterances = us\<rparr>) \<lparr>recordingUrl = url\<rparr>) = row"
  "topics (ConversationInclude.extend (Conversation.extend row
      \<lparr>topics = ts, utterances = us\<rparr>) \<lparr>recordingUrl = url\<rparr>) = ts"
  "utterances (ConversationInclude.extend (Conversation.extend row
      \<lparr>topics = ts, utterances = us\<rparr>) \<lparr>recordingUrl = url\<rparr>) = us"
  "recordingUrl (ConversationInclude.extend (Conversation.extend row
      \<lparr>topics = ts, utterances = us\<rparr>) \<lparr>recordingUrl = url\<rparr>) = url"
  by (simp_all add: Conversation.defs ConversationInclude.defs)

text \<open>
  C4. getRecording on an id with no stored Recording resolves with null and changes
  nothing; on an id with a stored Recording, when the signed URL is minted, it resolves
  with the Recording's columns, its Topics, its Utterances and that URL as
  \<^verbatim>\<open>recordingUrl\<close>. (A rejected signing rejects the call.)
\<close>

theorem getRecording_null_or_found:
  "(find_row (db w) i = None \<longrightarrow> getRecording E i w = (Inr None, w)) \<and>
   (\<forall>row url.
      find_row (db w) i = Some row \<and>
      generatePresignedUrl E (BUCKET_NAME E) (file_path row) (bucket_store w) = Inr url \<longrightarrow>
      (\<exists>resp. getRecording E i w = (Inr (Some resp), w) \<and>
         Conversation.truncate resp = row \<and>
         topics resp = topics_of (db w) i \<and>
         utterances resp = utterances_of (db w) i \<and>
         recordingUrl resp = url))"
  by (auto simp add: getRecording_null getRecording_found response_fields)

theorem getRecording_null_or_found_witness:
  "find_row (db world1) ''zz'' = None \<and>
   getRecording env0 ''zz'' world1 = (Inr None, world1) \<and>
   find_row (db world1) ''c0'' = Some row0 \<and>
   generatePresignedUrl env0 (BUCKET_NAME env0) (file_path row0) (bucket_store world1) =
     Inr ''https://recordings/user1/u1.m4a'' \<and>
   (\<exists>resp. getRecording env0 ''c0'' world1 = (Inr (Some resp), world1) \<and>
      Conversation.truncate resp = row0 \<and>
      topics resp = [\<lparr>topic = ''greeting'', topic_conversationId = ''c0''\<rparr>] \<and>
      utterances resp =
        [\<lparr>speaker = ''A'', transcript_u = ''hi'', start = 0, end' = 1,
          utterance_conversationId = ''c0''\<rparr>] \<and>
      recordingUrl resp = ''https://recordings/user1/u1.m4a'')"
proof -
  have n: "find_row (db world1) ''zz'' = None"
    by (simp add: find_row_def world1_def row0_def)
  have u: "generatePresignedUrl env0 (BUCKET_NAME env0) (file_path row0) (bucket_store world1) =
     Inr ''https://recordings/user1/u1.m4a''"
    by (simp add: env0_simps row0_def)
  have t: "topics_of (db world1) ''c0'' = [\<lparr>topic = ''greeting'', topic_conversationId = ''c0''\<rparr>]"
    by (simp add: topics_of_def world1_def)
  have ut: "utterances_of (db world1) ''c0'' =
        [\<lparr>speaker = ''A'', transcript_u = ''hi'', start = 0, end' = 1,
          utterance_conversationId = ''c0''\<rparr>]"
    by (simp add: utterances_of_def world1_def)
  from getRecording_null_or_found [of world1 "''zz''" env0] n
  have a: "getRecording env0 ''zz'' world1 = (Inr None, world1)" by simp
  from getRecording_null_or_found [of world1 "''c0''" env0] world1_row0 u
  have "\<exists>resp. getRecording env0 ''c0'' world1 = (Inr (Some resp), world1) \<and>
         Conversation.truncate resp = row0 \<and>
         topics resp = topics_of (db world1) ''c0'' \<and>
         utterances resp = utterances_of (db world1) ''c0'' \<and>
         recordingUrl resp = ''https://recordings/user1/u1.m4a''"
    by blast
  with n a world1_row0 u show ?thesis by (simp add: t ut)
qed

lemma find_row_with_recording_url:
  "find_row (db (with_recording_url u w)) i =
   map_option (\<lambda>r. r\<lparr>recording_url := u\<rparr>) (find_row (db w) i)"
  by (simp add: find_row_def with_recording_url_def find_map_keeping)

lemma children_with_recording_url:
  "topics_of (db (with_recording_url u w)) i = topics_of (db w) i"
  "utterances_of (db (with_recording_url u w)) i = utterances_of (db w) i"
  "bucket_store (with_recording_url u w) = bucket_store w"
  by (simp_all add: topics_of_def utterances_of_def with_recording_url_def)

lemma getRecording_url_from_file_path:
  assumes "find_row (db w) i = Some row"
  shows "seen_recordingUrl (getRecording E i w) =
     map_sum (\<lambda>e. e) Some
       (generatePresignedUrl E (BUCKET_NAME E) (file_path row) (bucket_store w))"
  by (simp add: getRecording_found [OF assms] seen_recordingUrl_def response_fields
      split: sum.splits)

text \<open>
  C9. Every Recording row written by createRecording has the empty string as its stored
  \<open>recording_url\<close>. The \<^verbatim>\<open>recordingUrl\<close> of a getRecording response is what the
  storage client signs, at read time, for the row's \<open>file_path\<close>; it is the same whatever
  the stored \<open>recording_url\<close> holds.
\<close>

theorem recording_url_never_read:
  "(\<forall>r w'. createRecording E user body w = (Inr r, w') \<longrightarrow>
      (\<exists>row. find_row (db w') (id' r) = Some row \<and> recording_url row = '''')) \<and>
   (\<forall>row resp w'. find_row (db w) i = Some row \<and>
      getRecording E i w = (Inr (Some resp), w') \<longrightarrow>
      generatePresignedUrl E (BUCKET_NAME E) (file_path row) (bucket_store w) =
        Inr (recordingUrl resp)) \<and>
   (\<forall>u. seen_recordingUrl (getRecording E i (with_recording_url u w)) =
        seen_recordingUrl (getRecording E i w))"
proof (intro conjI allI impI)
  fix r w'
  assume "createRecording E user body w = (Inr r, w')"
  from createRecording_stored [OF this]
  show "\<exists>row. find_row (db w') (id' r) = Some row \<and> recording_url row = ''''"
    by (auto simp add: new_row_def written_data_def)
next
  fix row resp w'
  assume a: "find_row (db w) i = Some row \<and> getRecording E i w = (Inr (Some resp), w')"
  then have "seen_recordingUrl (getRecording E i w) = Inr (Some (recordingUrl resp))"
    by (simp add: seen_recordingUrl_def)
  with a getRecording_url_from_file_path [of w i row E]
  show "generatePresignedUrl E (BUCKET_NAME E) (file_path row) (bucket_store w) =
        Inr (recordingUrl resp)"
    by (cases "generatePresignedUrl E (BUCKET_NAME E) (file_path row) (bucket_store w)") auto
next
  fix u
  show "seen_recordingUrl (getRecording E i (with_recording_url u w)) =
        seen_recordingUrl (getRecording E i w)"
  proof (cases "find_row (db w) i")
    case None
    then have "find_row (db (with_recording_url u w)) i = None"
      by (simp add: find_row_with_recording_url)
    with None show ?thesis
      by (simp add: getRecording_null seen_recordingUrl_def)
  next
    case (Some row)
    then have "find_row (db (with_recording_url u w)) i = Some (row\<lparr>recording_url := u\<rparr>)"
      by (simp add: find_row_with_recording_url)
    from getRecording_url_from_file_path [OF this, of E]
      getRecording_url_from_file_path [OF Some, of E]
    show ?thesis by (simp add: children_with_recording_url)
  qed
qed

theorem recording_url_never_read_witness:
  "createRecording env0 ''user1'' [1, 2, 3] world0 = (Inr response0, world1) \<and>
   find_row (db world1) (id' response0) = Some row0 \<and> recording_url row0 = '''' \<and>
   (\<exists>resp. getRecording env0 ''c0'' world1 = (Inr (Some resp), world1) \<and>
      generatePresignedUrl env0 (BUCKET_NAME env0) (file_path row0) (bucket_store world1) =
        Inr (recordingUrl resp) \<and>
      recordingUrl resp = ''https://recordings/user1/u1.m4a'') \<and>
   seen_recordingUrl (getRecording env0 ''c0'' (with_recording_url ''elsewhere'' world1)) =
     Inr (Some ''https://recordings/user1/u1.m4a'')"
proof -
  have u: "generatePresignedUrl env0 (BUCKET_NAME env0) (file_path row0) (bucket_store world1) =
     Inr ''https://recordings/user1/u1.m4a''"
    by (simp add: env0_simps row0_def)
  from getRecording_found [OF world1_row0, of env0] u
  obtain resp where g: "getRecording env0 ''c0'' world1 = (Inr (Some resp), world1)"
    and ru: "recordingUrl resp = ''https://recordings/user1/u1.m4a''"
    by (simp add: response_fields)
  have s: "seen_recordingUrl (getRecording env0 ''c0'' world1) =
     Inr (Some ''https://recordings/user1/u1.m4a'')"
    by (simp add: g ru seen_recordingUrl_def)
  have "id' response0 = ''c0''" by (simp add: response0_def row0_def)
  with recording_url_never_read [of env0 "''user1''" "[1, 2, 3]" world0 "''c0''"]
    recording_url_never_read [of env0 "''user1''" "[1, 2, 3]" world1 "''c0''"]
    scenario0 world1_row0 g ru u s
  show ?thesis by (simp add: row0_def)
qed

section \<open>The claims about updateRecording, listRecordings and deleteRecording\<close>

lemma find_replaced:
  "find (\<lambda>r. id' r = i) xs = Some row \<Longrightarrow> id' row' = i \<Longrightarrow>
   find (\<lambda>r. id' r = i) (map (\<lambda>x. if id' x = i then row' else x) xs) = Some row'"
  by (induction xs) (auto split: if_splits)

lemma find_other:
  "j \<noteq> i \<Longrightarrow> id' row' = i \<Longrightarrow>
   find (\<lambda>r. id' r = j) (map (\<lambda>x. if id' x = i then row' else x) xs) =
   find (\<lambda>r. id' r = j) xs"
  by (induction xs) auto

lemma find_row_id: "find_row d i = Some row \<Longrightarrow> id' row = i"
  by (auto simp add: find_row_def find_Some_iff)

lemma updateRecording_found:
  assumes "find_row (db w) i = Some row"
  shows "updateRecording i nt ns w =
     (Inr (row\<lparr>title := overwrite nt (title row), transcript := overwrite ns (transcript row)\<rparr>),
      w\<lparr>db := (db w)\<lparr>conversation_table :=
             map (\<lambda>x. if id' x = i
                      then row\<lparr>title := overwrite nt (title row),
                               transcript := overwrite ns (transcript row)\<rparr>
                      else x) (conversation_table (db w))\<rparr>,
         console := console w @
           [[JObj (conversation_scalars
              (row\<lparr>title := overwrite nt (title row),
                    transcript := overwrite ns (transcript row)\<rparr>))]]\<rparr>)"
  using assms
  by (simp add: updateRecording_def conversation_update_def await_def resolve_def
      console_log_def Let_def)

lemma overwrite_title_only:
  "row\<lparr>title := overwrite (Some t) (title row),
       transcript := overwrite None (transcript row)\<rparr> = row\<lparr>title := t\<rparr>"
  by (cases row) (simp add: overwrite_def)

lemma overwrite_transcript_only:
  "row\<lparr>title := overwrite None (title row),
       transcript := overwrite (Some s) (transcript row)\<rparr> = row\<lparr>transcript := s\<rparr>"
  by (cases row) (simp add: overwrite_def)

text \<open>
  C5. On a stored Recording, updateRecording with only a new title stores the row with
  that title and every other column as it was, the transcript among them; with only a new
  transcript it stores the row with that transcript and every other column as it was, the
  title among them. No other Recording, Topic or Utterance row changes.
\<close>

theorem updateRecording_frame:
  assumes "find_row (db w) i = Some row"
  shows "fst (updateRecording i (Some t) None w) = Inr (row\<lparr>title := t\<rparr>) \<and>
     find_row (db (snd (updateRecording i (Some t) None w))) i = Some (row\<lparr>title := t\<rparr>) \<and>
     transcript (row\<lparr>title := t\<rparr>) = transcript row \<and>
     fst (updateRecording i None (Some s) w) = Inr (row\<lparr>transcript := s\<rparr>) \<and>
     find_row (db (snd (updateRecording i None (Some s) w))) i = Some (row\<lparr>transcript := s\<rparr>) \<and>
     title (row\<lparr>transcript := s\<rparr>) = title row \<and>
     (\<forall>nt ns j. j \<noteq> i \<longrightarrow>
        find_row (db (snd (updateRecording i nt ns w))) j = find_row (db w) j) \<and>
     (\<forall>nt ns. topic_table (db (snd (updateRecording i nt ns w))) = topic_table (db w) \<and>
        utterance_table (db (snd (updateRecording i nt ns w))) = utterance_table (db w))"
proof -
  from assms have f: "find (\<lambda>r. id' r = i) (conversation_table (db w)) = Some row"
    by (simp add: find_row_def)
  from assms have k: "id' row = i" by (rule find_row_id)
  have title_only: "fst (updateRecording i (Some t) None w) = Inr (row\<lparr>title := t\<rparr>) \<and>
     find_row (db (snd (updateRecording i (Some t) None w))) i = Some (row\<lparr>title := t\<rparr>)"
    unfolding updateRecording_found [OF assms] overwrite_title_only
    using find_replaced [OF f, of "row\<lparr>title := t\<rparr>"] k
    by (simp add: find_row_def)
  have transcript_only:
    "fst (updateRecording i None (Some s) w) = Inr (row\<lparr>transcript := s\<rparr>) \<and>
     find_row (db (snd (updateRecording i None (Some s) w))) i = Some (row\<lparr>transcript := s\<rparr>)"
    unfolding updateRecording_found [OF assms] overwrite_transcript_only
    using find_replaced [OF f, of "row\<lparr>transcript := s\<rparr>"] k
    by (simp add: find_row_def)
  have others: "find_row (db (snd (updateRecording i nt ns w))) j = find_row (db w) j"
    if "j \<noteq> i" for nt ns j
    unfolding updateRecording_found [OF assms]
    using that k by (simp add: find_row_def find_other)
  have children: "topic_table (db (snd (updateRecording i nt ns w))) = topic_table (db w) \<and>
        utterance_table (db (snd (updateRecording i nt ns w))) = utterance_table (db w)"
    for nt ns
    unfolding updateRecording_found [OF assms] by simp
  from title_only transcript_only others children show ?thesis by simp
qed

theorem updateRecording_frame_witness:
  "find_row (db world1) ''c0'' = Some row0 \<and>
   fst (updateRecording ''c0'' (Some ''Standup'') None world1) = Inr (row0\<lparr>title := ''Standup''\<rparr>) \<and>
   find_row (db (snd (updateRecording ''c0'' (Some ''Standup'') None world1))) ''c0'' =
     Some (row0\<lparr>title := ''Standup''\<rparr>) \<and>
   transcript (row0\<lparr>title := ''Standup''\<rparr>) = ''hi'' \<and>
   fst (updateRecording ''c0'' None (Some ''hello'') world1) = Inr (row0\<lparr>transcript := ''hello''\<rparr>) \<and>
   find_row (db (snd (updateRecording ''c0'' None (Some ''hello'') world1))) ''c0'' =
     Some (row0\<lparr>transcript := ''hello''\<rparr>) \<and>
   title (row0\<lparr>transcript := ''hello''\<rparr>) = ''conversation_11/14/2023'' \<and>
   ''c1'' \<noteq> ''c0'' \<and>
   find_row (db (snd (updateRecording ''c0'' (Some ''Standup'') None world1))) ''c1'' =
     find_row (db world1) ''c1''"
  using updateRecording_frame [OF world1_row0, of "''Standup''" "''hello''"]
  by (simp add: world1_row0 row0_def)

lemma selected_keys:
  "map fst (select_properties
      [''id'', ''title'', ''topics'', ''createdAt'', ''updatedAt'', ''duration'']
      (conversation_properties d r)) =
   [''id'', ''title'', ''duration'', ''createdAt'', ''updatedAt'', ''topics'']"
  by (simp add: select_properties_def conversation_properties_def conversation_scalars_def)

lemma selected_key_set:
  "set (map fst (select_properties
      [''id'', ''title'', ''topics'', ''createdAt'', ''updatedAt'', ''duration'']
      (conversation_properties d r))) =
   {''id'', ''title'', ''topics'', ''createdAt'', ''updatedAt'', ''duration''}"
  unfolding selected_keys by (simp add: insert_commute)

text \<open>
  C6. For every user and every database state, listRecordings resolves, and each
  element of its response has exactly the properties id, title, topics, createdAt,
  updatedAt and duration; transcript, summary and utterances are not among them.
\<close>

theorem listRecordings_projection:
  "\<exists>items. listRecordings user w = (Inr items, w) \<and>
     (\<forall>item \<in> set items.
        set (map fst item) =
          {''id'', ''title'', ''topics'', ''createdAt'', ''updatedAt'', ''duration''} \<and>
        ''transcript'' \<notin> set (map fst item) \<and>
        ''summary'' \<notin> set (map fst item) \<and>
        ''utterances'' \<notin> set (map fst item))"
proof -
  let ?sel = "[''id'', ''title'', ''topics'', ''createdAt'', ''updatedAt'', ''duration'']"
  let ?items = "map (\<lambda>r. select_properties ?sel (conversation_properties (db w) r))
                  (filter (\<lambda>r. userId r = user) (conversation_table (db w)))"
  have run: "listRecordings user w = (Inr ?items, w)"
    by (simp add: listRecordings_def conversation_findMany_select_def await_def resolve_def)
  have keys: "\<forall>item \<in> set ?items.
        set (map fst item) =
          {''id'', ''title'', ''topics'', ''createdAt'', ''updatedAt'', ''duration''} \<and>
        ''transcript'' \<notin> set (map fst item) \<and>
        ''summary'' \<notin> set (map fst item) \<and>
        ''utterances'' \<notin> set (map fst item)"
  proof
    fix item
    assume "item \<in> set ?items"
    then obtain r where
      item: "item = select_properties ?sel (conversation_properties (db w) r)"
      by auto
    show "set (map fst item) =
          {''id'', ''title'', ''topics'', ''createdAt'', ''updatedAt'', ''duration''} \<and>
        ''transcript'' \<notin> set (map fst item) \<and>
        ''summary'' \<notin> set (map fst item) \<and>
        ''utterances'' \<notin> set (map fst item)"
      unfolding item selected_key_set by simp
  qed
  from run keys show ?thesis by (rule exI [of _ ?items, OF conjI])
qed

theorem listRecordings_projection_witness:
  "listRecordings ''user1'' world1 = (Inr [listed0], world1) \<and>
   listed0 \<in> set [listed0] \<and>
   set (map fst listed0) =
     {''id'', ''title'', ''topics'', ''createdAt'', ''updatedAt'', ''duration''} \<and>
   ''transcript'' \<notin> set (map fst listed0) \<and>
   ''summary'' \<notin> set (map fst listed0) \<and>
   ''utterances'' \<notin> set (map fst listed0)"
proof -
  have l: "listRecordings ''user1'' world1 = (Inr [listed0], world1)"
    by (simp add: listRecordings_def conversation_findMany_select_def await_def resolve_def
        select_properties_def conversation_properties_def conversation_scalars_def
        topics_of_def utterances_of_def topic_object_def world1_def row0_def listed0_def)
  from listRecordings_projection [of "''user1''" world1]
  have "set (map fst listed0) =
     {''id'', ''title'', ''topics'', ''createdAt'', ''updatedAt'', ''duration''} \<and>
   ''transcript'' \<notin> set (map fst listed0) \<and>
   ''summary'' \<notin> set (map fst listed0) \<and>
   ''utterances'' \<notin> set (map fst listed0)"
    unfolding l by simp
  with l show ?thesis by simp
qed

text \<open>
  C7. On an id with no stored Recording the persistence call rejects with its not-found
  failure and changes nothing; deleteRecording ends as that call does, with the same
  failure for its caller, and the database is as it was.
\<close>

theorem deleteRecording_not_found:
  assumes "find_row (db w) i = None"
  shows "conversation_delete i w = (Inl (RecordNotFound i), w) \<and>
     deleteRecording i w = conversation_delete i w \<and>
     db (snd (deleteRecording i w)) = db w"
  using assms by (simp add: deleteRecording_def conversation_delete_def await_def)

theorem deleteRecording_not_found_witness:
  "find_row (db world1) ''zz'' = None \<and>
   deleteRecording ''zz'' world1 = (Inl (RecordNotFound ''zz''), world1) \<and>
   db (snd (deleteRecording ''zz'' world1)) = db world1"
proof -
  have n: "find_row (db world1) ''zz'' = None"
    by (simp add: find_row_def world1_def row0_def)
  with deleteRecording_not_found [OF n] show ?thesis by simp
qed

section \<open>The claim about the playback-status callback\<close>

text \<open>
  C8. On a loaded status the callback sets the observed position to the status's
  position and the observed duration to the status's duration (0 when it has none), and
  when the status says playback has just finished it clears the playing flag.
\<close>

theorem onPlaybackStatusUpdate_loaded:
  "position_v (onPlaybackStatusUpdate (Loaded s) v) = positionMillis s \<and>
   duration_v (onPlaybackStatusUpdate (Loaded s) v) =
     (case durationMillis s of None \<Rightarrow> 0 | Some d \<Rightarrow> d) \<and>
   (didJustFinish s \<longrightarrow> \<not> isPlaying (onPlaybackStatusUpdate (Loaded s) v))"
  by (simp add: onPlaybackStatusUpdate_def or_zero_def Let_def split: option.splits)

theorem onPlaybackStatusUpdate_loaded_witness:
  "didJustFinish \<lparr>positionMillis = 42000, durationMillis = Some 42350, didJustFinish = True\<rparr> \<and>
   onPlaybackStatusUpdate
     (Loaded \<lparr>positionMillis = 42000, durationMillis = Some 42350, didJustFinish = True\<rparr>)
     \<lparr>position_v = 0, duration_v = 0, isPlaying = True\<rparr> =
   \<lparr>position_v = 42000, duration_v = 42350, isPlaying = False\<rparr>"
  using onPlaybackStatusUpdate_loaded
    [of "\<lparr>positionMillis = 42000, durationMillis = Some 42350, didJustFinish = True\<rparr>"
        "\<lparr>position_v = 0, duration_v = 0, isPlaying = True\<rparr>"]
  by (simp add: onPlaybackStatusUpdate_def or_zero_def)

end
